theory Spec2Isabelle
  imports Main
begin

section \<open>The copy command of oras (cmd/oras/copy.go)\<close>

text \<open>
  The file holds one command: \<^verbatim>\<open>copyCmd\<close> reads two positional arguments into the
  options and hands them to \<^verbatim>\<open>runCopy\<close>, which builds two repository clients, wires two
  progress callbacks into the two option bundles of the oras-go library, checks the source
  reference, and then takes one of four transfer paths.

  Everything the file calls lives outside it (the repository clients, the registry calls,
  the display helper). Those collaborators are parameters of the model, gathered in the
  record \<open>env\<close>; what the command itself does with them is written out as the list of calls
  it makes, in order, next to the error it returns.
\<close>

subsection \<open>Data\<close>

text \<open>\<^verbatim>\<open>registry.Reference\<close>: the field \<open>Reference\<close> is the tag or digest part of a reference
  string, empty when the string names a repository only.\<close>

record reference =
  Registry :: string
  Repository :: string
  Reference :: string

text \<open>Go's \<^verbatim>\<open>error\<close>: either the invalid-reference error the command builds itself, or an
  error handed back by a collaborator.\<close>

datatype error = ErrInvalidReference reference | ErrExternal string

text \<open>Modelled from the spec: \<^verbatim>\<open>newErrInvalidReference\<close> is defined elsewhere in the
  repository; the spec only says that an empty source reference fails with an
  \<^verbatim>\<open>InvalidReference\<close> error, which line 103 builds from the reference.\<close>

definition newErrInvalidReference :: "reference \<Rightarrow> error" where
  "newErrInvalidReference ref = ErrInvalidReference ref"

text \<open>\<^verbatim>\<open>remote.Repository\<close>: the command reads only its field \<^verbatim>\<open>Reference\<close> (named
  \<open>RepoReference\<close> here, the name \<open>Reference\<close> being taken by the innermost field).\<close>

record repository =
  RepoReference :: reference

text \<open>\<^verbatim>\<open>ocispec.Descriptor\<close>. A lookup in \<open>Annotations\<close> is a lookup in a Go map: it tells
  whether the key is present (a nil map has no key).\<close>

record descriptor =
  MediaType :: string
  Digest :: string
  Size :: int
  Annotations :: "string \<rightharpoonup> string"

definition AnnotationTitle :: string where
  "AnnotationTitle = ''org.opencontainers.image.title''"

text \<open>\<^verbatim>\<open>option.Common\<close>: the command reads \<^verbatim>\<open>Verbose\<close> and passes the whole value on.\<close>

record Common =
  Verbose :: bool

text \<open>\<^verbatim>\<open>copyOptions\<close> (lines 29 to 37). \<^verbatim>\<open>option.Remote\<close> is opaque to this file: the type
  parameter \<open>'remote\<close>.\<close>

record 'remote copyOptions =
  src :: 'remote
  dst :: 'remote
  Common :: Common
  rescursive :: bool
  srcRef :: string
  dstRef :: string

subsection \<open>Callbacks and the option bundles of oras-go\<close>

text \<open>A callback receives the context and a descriptor; it may call \<^verbatim>\<open>display.Print\<close> and
  returns an error or nil. Its effect is the list of \<^verbatim>\<open>display.Print\<close> calls it makes.\<close>

datatype display_call = Print_call "string list"

type_synonym 'ctx callback = "'ctx \<Rightarrow> descriptor \<Rightarrow> display_call list \<times> error option"

text \<open>The bundles, with the two slots this file assigns. \<^verbatim>\<open>CopyOptions\<close> embeds
  \<^verbatim>\<open>CopyGraphOptions\<close>; \<^verbatim>\<open>ExtendedCopyOptions\<close> embeds \<^verbatim>\<open>ExtendedCopyGraphOptions\<close>, which
  embeds \<^verbatim>\<open>CopyGraphOptions\<close> in turn (the embedded field is \<open>ExtCopyGraphOptions\<close> here).\<close>

record 'ctx CopyGraphOptions =
  PreCopy :: "'ctx callback"
  OnCopySkipped :: "'ctx callback"

record 'ctx CopyOptions =
  CopyGraphOptions :: "'ctx CopyGraphOptions"

record 'ctx ExtendedCopyGraphOptions =
  ExtCopyGraphOptions :: "'ctx CopyGraphOptions"

record 'ctx ExtendedCopyOptions =
  ExtendedCopyGraphOptions :: "'ctx ExtendedCopyGraphOptions"

subsection \<open>The collaborators\<close>

text \<open>What \<^verbatim>\<open>runCopy\<close> calls and does not define. A fallible call returns \<open>Inl\<close> of its error;
  \<^verbatim>\<open>CopyGraph\<close>, \<^verbatim>\<open>ExtendedCopyGraph\<close> and \<^verbatim>\<open>display.Print\<close> return only an error or nil.\<close>

record ('remote, 'ctx) env =
  SetLoggerLevel :: "Common \<Rightarrow> 'ctx"
  NewRepository :: "'remote \<Rightarrow> string \<Rightarrow> Common \<Rightarrow> error + repository"
  DefaultCopyOptions :: "'ctx CopyOptions"
  DefaultExtendedCopyOptions :: "'ctx ExtendedCopyOptions"
  Print :: "string list \<Rightarrow> error option"
  ShortDigest :: "descriptor \<Rightarrow> string"
  Resolve :: "'ctx \<Rightarrow> repository \<Rightarrow> string \<Rightarrow> error + descriptor"
  Copy :: "'ctx \<Rightarrow> repository \<Rightarrow> string \<Rightarrow> repository \<Rightarrow> string \<Rightarrow> 'ctx CopyOptions
            \<Rightarrow> error + descriptor"
  CopyGraph :: "'ctx \<Rightarrow> repository \<Rightarrow> repository \<Rightarrow> descriptor \<Rightarrow> 'ctx CopyGraphOptions
            \<Rightarrow> error option"
  ExtendedCopy :: "'ctx \<Rightarrow> repository \<Rightarrow> string \<Rightarrow> repository \<Rightarrow> string
            \<Rightarrow> 'ctx ExtendedCopyOptions \<Rightarrow> error + descriptor"
  ExtendedCopyGraph :: "'ctx \<Rightarrow> repository \<Rightarrow> repository \<Rightarrow> descriptor
            \<Rightarrow> 'ctx ExtendedCopyGraphOptions \<Rightarrow> error option"

text \<open>\<^verbatim>\<open>display.Print(a...)\<close>: one call, whose error is the sink's.\<close>

definition display_Print :: "('remote, 'ctx) env \<Rightarrow> string list \<Rightarrow> display_call list \<times> error option" where
  "display_Print env a = ([Print_call a], Print env a)"

subsection \<open>The two closures of \<^verbatim>\<open>runCopy\<close> (lines 86 to 98)\<close>

text \<open>Both closures capture \<^verbatim>\<open>opts\<close>; only \<^verbatim>\<open>preCopy\<close> reads it.\<close>

definition preCopy :: "('remote, 'ctx) env \<Rightarrow> 'remote copyOptions \<Rightarrow> 'ctx callback" where
  "preCopy env opts ctx desc =
     (case Annotations desc AnnotationTitle of
        None \<Rightarrow>
          if \<not> Verbose (Common opts) then ([], None)
          else display_Print env [''Uploading'', ShortDigest env desc, MediaType desc]
      | Some name \<Rightarrow> display_Print env [''Uploading'', ShortDigest env desc, name])"

text \<open>Indexing a Go map with an absent key yields the zero value, the empty string.\<close>

definition onCopySkipped :: "('remote, 'ctx) env \<Rightarrow> 'remote copyOptions \<Rightarrow> 'ctx callback" where
  "onCopySkipped env opts ctx desc =
     display_Print env
       [''Exists   '', ShortDigest env desc,
        (case Annotations desc AnnotationTitle of None \<Rightarrow> [] | Some t \<Rightarrow> t)]"

text \<open>Lines 84, 85, 99 and 100: the defaults with both slots overwritten.\<close>

definition cpOpts :: "('remote, 'ctx) env \<Rightarrow> 'remote copyOptions \<Rightarrow> 'ctx CopyOptions" where
  "cpOpts env opts =
     (DefaultCopyOptions env)
       \<lparr>CopyGraphOptions :=
          (CopyGraphOptions (DefaultCopyOptions env))
            \<lparr>PreCopy := preCopy env opts, OnCopySkipped := onCopySkipped env opts\<rparr>\<rparr>"

definition extendCpOpts :: "('remote, 'ctx) env \<Rightarrow> 'remote copyOptions \<Rightarrow> 'ctx ExtendedCopyOptions" where
  "extendCpOpts env opts =
     (DefaultExtendedCopyOptions env)
       \<lparr>ExtendedCopyGraphOptions :=
          (ExtendedCopyGraphOptions (DefaultExtendedCopyOptions env))
            \<lparr>ExtCopyGraphOptions :=
               (ExtCopyGraphOptions (ExtendedCopyGraphOptions (DefaultExtendedCopyOptions env)))
                 \<lparr>PreCopy := preCopy env opts, OnCopySkipped := onCopySkipped env opts\<rparr>\<rparr>\<rparr>"

subsection \<open>\<^verbatim>\<open>runCopy\<close> (lines 68 to 144)\<close>

text \<open>The calls \<^verbatim>\<open>runCopy\<close> makes, each with its arguments. \<^verbatim>\<open>fmt.Println\<close> is recorded
  with its operands.\<close>

datatype ('remote, 'ctx) call =
    SetLoggerLevel_call Common
  | NewRepository_call 'remote string Common
  | Resolve_call 'ctx repository string
  | Copy_call 'ctx repository string repository string "'ctx CopyOptions"
  | CopyGraph_call 'ctx repository repository descriptor "'ctx CopyGraphOptions"
  | ExtendedCopy_call 'ctx repository string repository string "'ctx ExtendedCopyOptions"
  | ExtendedCopyGraph_call 'ctx repository repository descriptor "'ctx ExtendedCopyGraphOptions"
  | Println_call "string list"

text \<open>Lines 108 to 135, with both clients \<open>s\<close> and \<open>d\<close> at hand: the calls made and either the
  error that \<^verbatim>\<open>runCopy\<close> returns at once (lines 113, 120, 126, 133) or the descriptor left in
  \<^verbatim>\<open>desc\<close>.\<close>

definition transfer ::
  "('remote, 'ctx) env \<Rightarrow> 'remote copyOptions \<Rightarrow> 'ctx \<Rightarrow> repository \<Rightarrow> repository
     \<Rightarrow> ('remote, 'ctx) call list \<times> (error + descriptor)" where
  "transfer env opts ctx s d =
     (if rescursive opts then
        if Reference (RepoReference d) = [] then
          (case Resolve env ctx s (Reference (RepoReference s)) of
             Inl err \<Rightarrow> ([Resolve_call ctx s (Reference (RepoReference s))], Inl err)
           | Inr desc \<Rightarrow>
               ([Resolve_call ctx s (Reference (RepoReference s)),
                 ExtendedCopyGraph_call ctx s d desc (ExtendedCopyGraphOptions (extendCpOpts env opts))],
                (case ExtendedCopyGraph env ctx s d desc (ExtendedCopyGraphOptions (extendCpOpts env opts)) of
                   Some err \<Rightarrow> Inl err
                 | None \<Rightarrow> Inr desc)))
        else
          ([ExtendedCopy_call ctx s (srcRef opts) d (dstRef opts) (extendCpOpts env opts)],
           ExtendedCopy env ctx s (srcRef opts) d (dstRef opts) (extendCpOpts env opts))
      else
        if Reference (RepoReference d) = [] then
          (case Resolve env ctx s (Reference (RepoReference s)) of
             Inl err \<Rightarrow> ([Resolve_call ctx s (Reference (RepoReference s))], Inl err)
           | Inr desc \<Rightarrow>
               ([Resolve_call ctx s (Reference (RepoReference s)),
                 CopyGraph_call ctx s d desc (CopyGraphOptions (cpOpts env opts))],
                (case CopyGraph env ctx s d desc (CopyGraphOptions (cpOpts env opts)) of
                   Some err \<Rightarrow> Inl err
                 | None \<Rightarrow> Inr desc)))
        else
          ([Copy_call ctx s (srcRef opts) d (dstRef opts) (cpOpts env opts)],
           Copy env ctx s (srcRef opts) d (dstRef opts) (cpOpts env opts)))"

text \<open>The whole function: the calls made, in order, and the returned error (\<open>None\<close> is nil).
  The check of lines 136 to 138 is not a branch of its own: every path that reaches it has
  a nil \<^verbatim>\<open>err\<close>.\<close>

definition runCopy ::
  "('remote, 'ctx) env \<Rightarrow> 'remote copyOptions \<Rightarrow> ('remote, 'ctx) call list \<times> error option" where
  "runCopy env opts =
     (let ctx = SetLoggerLevel env (Common opts);
          t1 = [SetLoggerLevel_call (Common opts),
                NewRepository_call (src opts) (srcRef opts) (Common opts)]
      in case NewRepository env (src opts) (srcRef opts) (Common opts) of
           Inl err \<Rightarrow> (t1, Some err)
         | Inr s \<Rightarrow>
             (let t2 = t1 @ [NewRepository_call (dst opts) (dstRef opts) (Common opts)]
              in case NewRepository env (dst opts) (dstRef opts) (Common opts) of
                   Inl err \<Rightarrow> (t2, Some err)
                 | Inr d \<Rightarrow>
                     if Reference (RepoReference s) = []
                     then (t2, Some (newErrInvalidReference (RepoReference s)))
                     else
                       (case transfer env opts ctx s d of
                          (t3, Inl err) \<Rightarrow> (t2 @ t3, Some err)
                        | (t3, Inr desc) \<Rightarrow>
                            (t2 @ t3 @
                               [Println_call [''Copied'', srcRef opts, ''=>'', dstRef opts],
                                Println_call [''Digest:'', Digest desc]],
                             None))))"

subsection \<open>\<^verbatim>\<open>copyCmd\<close> (lines 39 to 66)\<close>

text \<open>\<^verbatim>\<open>cobra.MinimumNArgs(n)\<close> rejects fewer than \<open>n\<close> positional arguments, before the
  command's \<^verbatim>\<open>RunE\<close> is entered.\<close>

datatype cmd_error = ArgsError nat nat | RunError error

definition MinimumNArgs :: "nat \<Rightarrow> string list \<Rightarrow> cmd_error option" where
  "MinimumNArgs n args = (if length args < n then Some (ArgsError n (length args)) else None)"

text \<open>The command's run: the validator of line 52, then the body of lines 54 to 56 on the
  options as the flags left them.\<close>

definition copyCmd ::
  "('remote, 'ctx) env \<Rightarrow> 'remote copyOptions \<Rightarrow> string list
     \<Rightarrow> ('remote, 'ctx) call list \<times> cmd_error option" where
  "copyCmd env opts args =
     (case MinimumNArgs 2 args of
        Some err \<Rightarrow> ([], Some err)
      | None \<Rightarrow>
          (case runCopy env (opts\<lparr>srcRef := args ! 0, dstRef := args ! 1\<rparr>) of
             (t, r) \<Rightarrow> (t, map_option RunError r)))"

subsection \<open>Reading a list of calls\<close>

text \<open>The four delegate calls of the library, and the calls that can reach the network.\<close>

datatype delegate = PlainCopy | PlainGraphCopy | ExtCopy | ExtGraphCopy

fun delegate_of :: "('remote, 'ctx) call \<Rightarrow> delegate option" where
  "delegate_of (Copy_call _ _ _ _ _ _) = Some PlainCopy"
| "delegate_of (CopyGraph_call _ _ _ _ _) = Some PlainGraphCopy"
| "delegate_of (ExtendedCopy_call _ _ _ _ _ _) = Some ExtCopy"
| "delegate_of (ExtendedCopyGraph_call _ _ _ _ _) = Some ExtGraphCopy"
| "delegate_of _ = None"

definition delegates :: "('remote, 'ctx) call list \<Rightarrow> delegate list" where
  "delegates t = List.map_filter delegate_of t"

fun is_Resolve :: "('remote, 'ctx) call \<Rightarrow> bool" where
  "is_Resolve (Resolve_call _ _ _) = True"
| "is_Resolve _ = False"


definition network_calls :: "('remote, 'ctx) call list \<Rightarrow> ('remote, 'ctx) call list" where
  "network_calls t = filter (\<lambda>c. is_Resolve c \<or> delegate_of c \<noteq> None) t"

text \<open>The selection as the spec tabulates it: a function of the recursive flag and of
  whether the destination carries a tag.\<close>

fun spec_select :: "bool \<Rightarrow> bool \<Rightarrow> delegate" where
  "spec_select False False = PlainGraphCopy"
| "spec_select False True = PlainCopy"
| "spec_select True False = ExtGraphCopy"
| "spec_select True True = ExtCopy"


text \<open>The line \<^verbatim>\<open>fmt.Println\<close> writes for string operands: the operands separated by single
  spaces, then a newline.\<close>

fun Sprintln :: "string list \<Rightarrow> string" where
  "Sprintln [] = [CHR 0x0A]"
| "Sprintln [a] = a @ [CHR 0x0A]"
| "Sprintln (a # b # r) = a @ '' '' @ Sprintln (b # r)"

subsection \<open>A registry to run the command against\<close>

text \<open>The scenarios of the spec: \<open>repo-a:v1\<close> resolves to a descriptor titled
  \<open>net-monitor\<close>; \<open>repo-a\<close> and \<open>repo-b\<close> name repositories without a tag; every transfer
  succeeds and the display sink works. Variations are written as updates of this record.\<close>

definition repo :: "string \<Rightarrow> string \<Rightarrow> repository" where
  "repo name tag = \<lparr>RepoReference = \<lparr>Registry = ''localhost:5000'', Repository = name, Reference = tag\<rparr>\<rparr>"

definition desc_D :: descriptor where
  "desc_D = \<lparr>MediaType = ''application/vnd.oci.image.manifest.v1+json'',
             Digest = ''sha256:9834876dcfb05cb167a5c24953eba58c4ac89b1adf57f28f2f9d09af107ee8f0'',
             Size = 528,
             Annotations = [AnnotationTitle \<mapsto> ''net-monitor'']\<rparr>"

definition no_callbacks :: "unit CopyGraphOptions" where
  "no_callbacks = \<lparr>PreCopy = (\<lambda>_ _. ([], None)), OnCopySkipped = (\<lambda>_ _. ([], None))\<rparr>"

definition scenario_env :: "(unit, unit) env" where
  "scenario_env =
     \<lparr>SetLoggerLevel = (\<lambda>_. ()),
      NewRepository = (\<lambda>_ ref _.
        if ref = ''repo-a:v1'' then Inr (repo ''repo-a'' ''v1'')
        else if ref = ''repo-b:v1'' then Inr (repo ''repo-b'' ''v1'')
        else if ref = ''repo-a'' then Inr (repo ''repo-a'' [])
        else if ref = ''repo-b'' then Inr (repo ''repo-b'' [])
        else Inl (ErrExternal ''invalid reference'')),
      DefaultCopyOptions = \<lparr>CopyGraphOptions = no_callbacks\<rparr>,
      DefaultExtendedCopyOptions = \<lparr>ExtendedCopyGraphOptions = \<lparr>ExtCopyGraphOptions = no_callbacks\<rparr>\<rparr>,
      Print = (\<lambda>_. None),
      ShortDigest = (\<lambda>d. take 12 (drop 7 (Digest d))),
      Resolve = (\<lambda>_ _ _. Inr desc_D),
      Copy = (\<lambda>_ _ _ _ _ _. Inr desc_D),
      CopyGraph = (\<lambda>_ _ _ _ _. None),
      ExtendedCopy = (\<lambda>_ _ _ _ _ _. Inr desc_D),
      ExtendedCopyGraph = (\<lambda>_ _ _ _ _. None)\<rparr>"

definition scenario_opts :: "bool \<Rightarrow> string \<Rightarrow> string \<Rightarrow> bool \<Rightarrow> unit copyOptions" where
  "scenario_opts recursive sref dref verbose =
     \<lparr>src = (), dst = (), Common = \<lparr>Verbose = verbose\<rparr>, rescursive = recursive,
      srcRef = sref, dstRef = dref\<rparr>"

section \<open>Properties\<close>

lemmas scenario_defs = scenario_env_def scenario_opts_def repo_def

subsection \<open>The callbacks\<close>

text \<open>C4. For every descriptor handed to \<^verbatim>\<open>preCopy\<close>: with a title annotation, one progress
  line labelled with the title is printed (and the sink's error returned); without one and
  with verbose off, nothing is printed and nil is returned; without one and with verbose on,
  one progress line labelled with the media type is printed.\<close>

theorem preCopy_cases:
  "(Annotations desc AnnotationTitle = Some t \<longrightarrow>
      preCopy env opts ctx desc
        = ([Print_call [''Uploading'', ShortDigest env desc, t]],
           Print env [''Uploading'', ShortDigest env desc, t]))
   \<and> (Annotations desc AnnotationTitle = None \<and> \<not> Verbose (Common opts) \<longrightarrow>
      preCopy env opts ctx desc = ([], None))
   \<and> (Annotations desc AnnotationTitle = None \<and> Verbose (Common opts) \<longrightarrow>
      preCopy env opts ctx desc
        = ([Print_call [''Uploading'', ShortDigest env desc, MediaType desc]],
           Print env [''Uploading'', ShortDigest env desc, MediaType desc]))"
  by (simp add: preCopy_def display_Print_def)

text \<open>The three cases on the descriptor of the scenarios, with and without its title.\<close>

theorem preCopy_cases_witness:
  "Annotations desc_D AnnotationTitle = Some ''net-monitor''
   \<and> preCopy scenario_env (scenario_opts False ''repo-a:v1'' ''repo-b:v1'' False) () desc_D
       = ([Print_call [''Uploading'', ''9834876dcfb0'', ''net-monitor'']], None)
   \<and> Annotations (desc_D\<lparr>Annotations := Map.empty\<rparr>) AnnotationTitle = None
   \<and> \<not> Verbose (Common (scenario_opts False ''repo-a:v1'' ''repo-b:v1'' False))
   \<and> preCopy scenario_env (scenario_opts False ''repo-a:v1'' ''repo-b:v1'' False) ()
        (desc_D\<lparr>Annotations := Map.empty\<rparr>) = ([], None)
   \<and> Verbose (Common (scenario_opts False ''repo-a:v1'' ''repo-b:v1'' True))
   \<and> preCopy scenario_env (scenario_opts False ''repo-a:v1'' ''repo-b:v1'' True) ()
        (desc_D\<lparr>Annotations := Map.empty\<rparr>)
       = ([Print_call [''Uploading'', ''9834876dcfb0'',
                       ''application/vnd.oci.image.manifest.v1+json'']], None)"
proof -
  let ?quiet = "scenario_opts False ''repo-a:v1'' ''repo-b:v1'' False"
  let ?loud = "scenario_opts False ''repo-a:v1'' ''repo-b:v1'' True"
  let ?bare = "desc_D\<lparr>Annotations := Map.empty\<rparr>"
  have a: "Annotations desc_D AnnotationTitle = Some ''net-monitor''"
    by (simp add: desc_D_def)
  have b: "Annotations ?bare AnnotationTitle = None"
    by simp
  have v: "\<not> Verbose (Common ?quiet)" "Verbose (Common ?loud)"
    by (simp_all add: scenario_opts_def)
  have s: "ShortDigest scenario_env desc_D = ''9834876dcfb0''"
          "ShortDigest scenario_env ?bare = ''9834876dcfb0''"
          "MediaType ?bare = ''application/vnd.oci.image.manifest.v1+json''"
          "\<And>x. Print scenario_env x = None"
    by (simp_all add: scenario_env_def desc_D_def)
  from preCopy_cases [of desc_D "''net-monitor''" scenario_env ?quiet "()"]
       preCopy_cases [of ?bare "[]" scenario_env ?quiet "()"]
       preCopy_cases [of ?bare "[]" scenario_env ?loud "()"]
       a b v
  show ?thesis by (simp add: s)
qed

text \<open>C5. For every descriptor handed to \<^verbatim>\<open>onCopySkipped\<close>, one notice with the status
  \<open>Exists\<close> is printed, labelled with the title annotation, or with the empty string when the
  annotation is absent; the verbose setting makes no difference.\<close>

theorem onCopySkipped_always_prints:
  "(Annotations desc AnnotationTitle = Some t \<longrightarrow>
      onCopySkipped env opts ctx desc
        = ([Print_call [''Exists   '', ShortDigest env desc, t]],
           Print env [''Exists   '', ShortDigest env desc, t]))
   \<and> (Annotations desc AnnotationTitle = None \<longrightarrow>
      onCopySkipped env opts ctx desc
        = ([Print_call [''Exists   '', ShortDigest env desc, []]],
           Print env [''Exists   '', ShortDigest env desc, []]))
   \<and> onCopySkipped env (opts\<lparr>Common := (Common opts)\<lparr>Verbose := v\<rparr>\<rparr>) ctx desc
        = onCopySkipped env opts ctx desc"
  by (simp add: onCopySkipped_def display_Print_def)

theorem onCopySkipped_always_prints_witness:
  "Annotations desc_D AnnotationTitle = Some ''net-monitor''
   \<and> onCopySkipped scenario_env (scenario_opts False ''repo-a:v1'' ''repo-b:v1'' False) () desc_D
       = ([Print_call [''Exists   '', ''9834876dcfb0'', ''net-monitor'']], None)
   \<and> Annotations (desc_D\<lparr>Annotations := Map.empty\<rparr>) AnnotationTitle = None
   \<and> onCopySkipped scenario_env (scenario_opts False ''repo-a:v1'' ''repo-b:v1'' False) ()
        (desc_D\<lparr>Annotations := Map.empty\<rparr>)
       = ([Print_call [''Exists   '', ''9834876dcfb0'', []]], None)"
proof -
  let ?quiet = "scenario_opts False ''repo-a:v1'' ''repo-b:v1'' False"
  let ?bare = "desc_D\<lparr>Annotations := Map.empty\<rparr>"
  have a: "Annotations desc_D AnnotationTitle = Some ''net-monitor''"
    by (simp add: desc_D_def)
  have b: "Annotations ?bare AnnotationTitle = None"
    by simp
  have s: "ShortDigest scenario_env desc_D = ''9834876dcfb0''"
          "ShortDigest scenario_env ?bare = ''9834876dcfb0''"
          "\<And>x. Print scenario_env x = None"
    by (simp_all add: scenario_env_def desc_D_def)
  from onCopySkipped_always_prints [of desc_D "''net-monitor''" scenario_env ?quiet "()"]
       onCopySkipped_always_prints [of ?bare "[]" scenario_env ?quiet "()"]
       a b
  show ?thesis by (simp add: s)
qed

text \<open>C9. The fallback of \<^verbatim>\<open>preCopy\<close> needs the title key to be absent: for every descriptor
  whose annotations map the title key to the empty string, \<^verbatim>\<open>preCopy\<close> prints one progress
  line with the empty label, whatever the verbose setting.\<close>

theorem preCopy_empty_title:
  assumes "Annotations desc AnnotationTitle = Some []"
  shows "preCopy env opts ctx desc
           = ([Print_call [''Uploading'', ShortDigest env desc, []]],
              Print env [''Uploading'', ShortDigest env desc, []])
       \<and> preCopy env (opts\<lparr>Common := (Common opts)\<lparr>Verbose := v\<rparr>\<rparr>) ctx desc
           = preCopy env opts ctx desc"
  using assms by (simp add: preCopy_def display_Print_def)

theorem preCopy_empty_title_witness:
  "Annotations (desc_D\<lparr>Annotations := [AnnotationTitle \<mapsto> []]\<rparr>) AnnotationTitle = Some []
   \<and> preCopy scenario_env (scenario_opts False ''repo-a:v1'' ''repo-b:v1'' False) ()
        (desc_D\<lparr>Annotations := [AnnotationTitle \<mapsto> []]\<rparr>)
       = ([Print_call [''Uploading'', ''9834876dcfb0'', []]], None)
   \<and> preCopy scenario_env (scenario_opts False ''repo-a:v1'' ''repo-b:v1'' True) ()
        (desc_D\<lparr>Annotations := [AnnotationTitle \<mapsto> []]\<rparr>)
       = ([Print_call [''Uploading'', ''9834876dcfb0'', []]], None)"
proof -
  let ?d = "desc_D\<lparr>Annotations := [AnnotationTitle \<mapsto> []]\<rparr>"
  have a: "Annotations ?d AnnotationTitle = Some []"
    by simp
  have s: "ShortDigest scenario_env ?d = ''9834876dcfb0''" "\<And>x. Print scenario_env x = None"
    by (simp_all add: scenario_env_def desc_D_def)
  from preCopy_empty_title
         [OF a, of scenario_env "scenario_opts False ''repo-a:v1'' ''repo-b:v1'' False" "()"]
       preCopy_empty_title
         [OF a, of scenario_env "scenario_opts False ''repo-a:v1'' ''repo-b:v1'' True" "()"]
       a
  show ?thesis by (simp add: s)
qed

text \<open>C6. The two bundles carry the same callbacks: the \<^verbatim>\<open>PreCopy\<close> slot of the plain bundle
  and that of the extended bundle hold the same function, and so do the two
  \<^verbatim>\<open>OnCopySkipped\<close> slots; they are the two closures of \<^verbatim>\<open>runCopy\<close>.\<close>

theorem callbacks_identical_in_both_bundles:
  "PreCopy (CopyGraphOptions (cpOpts env opts))
     = PreCopy (ExtCopyGraphOptions (ExtendedCopyGraphOptions (extendCpOpts env opts)))
   \<and> OnCopySkipped (CopyGraphOptions (cpOpts env opts))
     = OnCopySkipped (ExtCopyGraphOptions (ExtendedCopyGraphOptions (extendCpOpts env opts)))
   \<and> PreCopy (CopyGraphOptions (cpOpts env opts)) = preCopy env opts
   \<and> OnCopySkipped (CopyGraphOptions (cpOpts env opts)) = onCopySkipped env opts"
  by (simp add: cpOpts_def extendCpOpts_def)

subsection \<open>The source reference check\<close>



subsection \<open>The four transfer paths\<close>

text \<open>C1 as stated (exactly one delegate call whenever the source reference is not empty)
  fails where \<^verbatim>\<open>Resolve\<close> fails: with source \<open>repo-a:v1\<close>, untagged destination \<open>repo-b\<close> and
  a registry that does not find the tag, the command returns after \<^verbatim>\<open>Resolve\<close> (line 126)
  and calls no delegate.\<close>

theorem runCopy_no_delegate_when_Resolve_fails:
  "NewRepository (scenario_env\<lparr>Resolve := (\<lambda>_ _ _. Inl (ErrExternal ''not found''))\<rparr>)
       () ''repo-a:v1'' \<lparr>Verbose = False\<rparr> = Inr (repo ''repo-a'' ''v1'')
   \<and> Reference (RepoReference (repo ''repo-a'' ''v1'')) \<noteq> []
   \<and> runCopy (scenario_env\<lparr>Resolve := (\<lambda>_ _ _. Inl (ErrExternal ''not found''))\<rparr>)
        (scenario_opts False ''repo-a:v1'' ''repo-b'' False)
      = ([SetLoggerLevel_call \<lparr>Verbose = False\<rparr>,
          NewRepository_call () ''repo-a:v1'' \<lparr>Verbose = False\<rparr>,
          NewRepository_call () ''repo-b'' \<lparr>Verbose = False\<rparr>,
          Resolve_call () (repo ''repo-a'' ''v1'') ''v1''],
         Some (ErrExternal ''not found''))
   \<and> length (delegates (fst (runCopy
        (scenario_env\<lparr>Resolve := (\<lambda>_ _ _. Inl (ErrExternal ''not found''))\<rparr>)
        (scenario_opts False ''repo-a:v1'' ''repo-b'' False)))) \<noteq> 1"
  by (simp add: scenario_defs runCopy_def transfer_def delegates_def List.map_filter_simps)

text \<open>C1, amended. For every invocation in which both clients are built and the source
  reference is not empty, the delegate calls made are: none when the destination reference
  is empty and \<^verbatim>\<open>Resolve\<close> fails, and otherwise exactly one, chosen by the pair (recursive,
  destination reference not empty) alone as the spec tabulates it. In full: with an empty
  destination reference the command calls \<^verbatim>\<open>Resolve\<close> on the source reference component and,
  if that succeeds, \<^verbatim>\<open>CopyGraph\<close> (not recursive) or \<^verbatim>\<open>ExtendedCopyGraph\<close> (recursive) on the
  resolved descriptor; with a destination tag it calls \<^verbatim>\<open>Copy\<close> (not recursive) or
  \<^verbatim>\<open>ExtendedCopy\<close> (recursive) and does not call \<^verbatim>\<open>Resolve\<close>.\<close>

theorem runCopy_selects_one_delegate:
  assumes "NewRepository env (src opts) (srcRef opts) (Common opts) = Inr s"
      and "NewRepository env (dst opts) (dstRef opts) (Common opts) = Inr d"
      and "Reference (RepoReference s) \<noteq> []"
  shows "delegates (fst (runCopy env opts))
           = (if Reference (RepoReference d) = []
                 \<and> isl (Resolve env (SetLoggerLevel env (Common opts)) s (Reference (RepoReference s)))
              then []
              else [spec_select (rescursive opts) (Reference (RepoReference d) \<noteq> [])])
       \<and> network_calls (fst (runCopy env opts))
           = (let ctx = SetLoggerLevel env (Common opts) in
              if Reference (RepoReference d) = [] then
                (case Resolve env ctx s (Reference (RepoReference s)) of
                   Inl err \<Rightarrow> [Resolve_call ctx s (Reference (RepoReference s))]
                 | Inr desc \<Rightarrow>
                     [Resolve_call ctx s (Reference (RepoReference s)),
                      if rescursive opts
                      then ExtendedCopyGraph_call ctx s d desc
                             (ExtendedCopyGraphOptions (extendCpOpts env opts))
                      else CopyGraph_call ctx s d desc (CopyGraphOptions (cpOpts env opts))])
              else
                [if rescursive opts
                 then ExtendedCopy_call ctx s (srcRef opts) d (dstRef opts) (extendCpOpts env opts)
                 else Copy_call ctx s (srcRef opts) d (dstRef opts) (cpOpts env opts)])"
  using assms
  by (auto simp: runCopy_def transfer_def delegates_def network_calls_def
                 List.map_filter_simps Let_def
           split: sum.splits option.splits)

text \<open>Scenario 2 of the spec: \<open>repo-a:v1\<close> to the untagged \<open>repo-b\<close>, not recursive.\<close>

theorem runCopy_selects_one_delegate_witness:
  "NewRepository scenario_env (src (scenario_opts False ''repo-a:v1'' ''repo-b'' False))
       (srcRef (scenario_opts False ''repo-a:v1'' ''repo-b'' False))
       (Common (scenario_opts False ''repo-a:v1'' ''repo-b'' False)) = Inr (repo ''repo-a'' ''v1'')
   \<and> NewRepository scenario_env (dst (scenario_opts False ''repo-a:v1'' ''repo-b'' False))
       (dstRef (scenario_opts False ''repo-a:v1'' ''repo-b'' False))
       (Common (scenario_opts False ''repo-a:v1'' ''repo-b'' False)) = Inr (repo ''repo-b'' [])
   \<and> Reference (RepoReference (repo ''repo-a'' ''v1'')) \<noteq> []
   \<and> delegates (fst (runCopy scenario_env (scenario_opts False ''repo-a:v1'' ''repo-b'' False)))
       = [PlainGraphCopy]
   \<and> network_calls (fst (runCopy scenario_env (scenario_opts False ''repo-a:v1'' ''repo-b'' False)))
       = [Resolve_call () (repo ''repo-a'' ''v1'') ''v1'',
          CopyGraph_call () (repo ''repo-a'' ''v1'') (repo ''repo-b'' []) desc_D
            (CopyGraphOptions (cpOpts scenario_env (scenario_opts False ''repo-a:v1'' ''repo-b'' False)))]"
proof -
  let ?o = "scenario_opts False ''repo-a:v1'' ''repo-b'' False"
  have h1: "NewRepository scenario_env (src ?o) (srcRef ?o) (Common ?o) = Inr (repo ''repo-a'' ''v1'')"
    by (simp add: scenario_defs)
  have h2: "NewRepository scenario_env (dst ?o) (dstRef ?o) (Common ?o) = Inr (repo ''repo-b'' [])"
    by (simp add: scenario_defs)
  have h3: "Reference (RepoReference (repo ''repo-a'' ''v1'')) \<noteq> []"
    by (simp add: repo_def)
  have r: "Resolve scenario_env () (repo ''repo-a'' ''v1'') ''v1'' = Inr desc_D"
    by (simp add: scenario_env_def)
  have e: "Reference (RepoReference (repo ''repo-b'' [])) = []"
          "Reference (RepoReference (repo ''repo-a'' ''v1'')) = ''v1''"
          "\<not> rescursive ?o"
    by (simp_all add: repo_def scenario_opts_def)
  from runCopy_selects_one_delegate [OF h1 h2 h3] h1 h2 h3 show ?thesis
    by (simp add: r e)
qed

text \<open>C3 as stated (\<^verbatim>\<open>Copy\<close> receives the tag components \<open>v1\<close> and \<open>v1\<close>) fails: line 130
  passes \<^verbatim>\<open>opts.srcRef\<close> and \<^verbatim>\<open>opts.dstRef\<close>, the reference strings as typed, so in
  scenario 1 the one network call is \<^verbatim>\<open>Copy\<close> with \<open>repo-a:v1\<close> and \<open>repo-b:v1\<close>.\<close>

theorem runCopy_Copy_gets_reference_strings_as_typed:
  "network_calls (fst (runCopy scenario_env (scenario_opts False ''repo-a:v1'' ''repo-b:v1'' False)))
     = [Copy_call () (repo ''repo-a'' ''v1'') ''repo-a:v1'' (repo ''repo-b'' ''v1'') ''repo-b:v1''
          (cpOpts scenario_env (scenario_opts False ''repo-a:v1'' ''repo-b:v1'' False))]
   \<and> network_calls (fst (runCopy scenario_env (scenario_opts False ''repo-a:v1'' ''repo-b:v1'' False)))
     \<noteq> [Copy_call () (repo ''repo-a'' ''v1'') ''v1'' (repo ''repo-b'' ''v1'') ''v1''
          (cpOpts scenario_env (scenario_opts False ''repo-a:v1'' ''repo-b:v1'' False))]"
  by (simp add: scenario_defs runCopy_def transfer_def network_calls_def)

text \<open>C3, amended. In the non-recursive case where both source and destination carry tags,
  \<^verbatim>\<open>Copy\<close> is called with the source repository, the source reference string as typed
  (\<open>repo-a:v1\<close> in scenario 1), the destination repository, the destination reference string
  as typed (\<open>repo-b:v1\<close>) and the plain option bundle; when it succeeds with descriptor \<open>D\<close>
  the command prints the two lines \<open>Copied <source string> => <destination string>\<close> and
  \<open>Digest: <digest of D>\<close>, makes no other call after the construction of the clients, and
  returns nil.\<close>

theorem runCopy_plain_copy_with_tags:
  assumes "NewRepository env (src opts) (srcRef opts) (Common opts) = Inr s"
      and "NewRepository env (dst opts) (dstRef opts) (Common opts) = Inr d"
      and "Reference (RepoReference s) \<noteq> []"
      and "Reference (RepoReference d) \<noteq> []"
      and "\<not> rescursive opts"
      and "Copy env (SetLoggerLevel env (Common opts)) s (srcRef opts) d (dstRef opts)
             (cpOpts env opts) = Inr D"
  shows "runCopy env opts
           = ([SetLoggerLevel_call (Common opts),
               NewRepository_call (src opts) (srcRef opts) (Common opts),
               NewRepository_call (dst opts) (dstRef opts) (Common opts),
               Copy_call (SetLoggerLevel env (Common opts)) s (srcRef opts) d (dstRef opts)
                 (cpOpts env opts),
               Println_call [''Copied'', srcRef opts, ''=>'', dstRef opts],
               Println_call [''Digest:'', Digest D]],
              None)
       \<and> map Sprintln [[''Copied'', srcRef opts, ''=>'', dstRef opts], [''Digest:'', Digest D]]
           = [''Copied '' @ srcRef opts @ '' => '' @ dstRef opts @ [CHR 0x0A],
              ''Digest: '' @ Digest D @ [CHR 0x0A]]"
  using assms by (simp add: runCopy_def transfer_def)

text \<open>Scenario 1 of the spec.\<close>

theorem runCopy_plain_copy_with_tags_witness:
  "NewRepository scenario_env (src (scenario_opts False ''repo-a:v1'' ''repo-b:v1'' False))
       (srcRef (scenario_opts False ''repo-a:v1'' ''repo-b:v1'' False))
       (Common (scenario_opts False ''repo-a:v1'' ''repo-b:v1'' False)) = Inr (repo ''repo-a'' ''v1'')
   \<and> NewRepository scenario_env (dst (scenario_opts False ''repo-a:v1'' ''repo-b:v1'' False))
       (dstRef (scenario_opts False ''repo-a:v1'' ''repo-b:v1'' False))
       (Common (scenario_opts False ''repo-a:v1'' ''repo-b:v1'' False)) = Inr (repo ''repo-b'' ''v1'')
   \<and> Reference (RepoReference (repo ''repo-a'' ''v1'')) \<noteq> []
   \<and> Reference (RepoReference (repo ''repo-b'' ''v1'')) \<noteq> []
   \<and> \<not> rescursive (scenario_opts False ''repo-a:v1'' ''repo-b:v1'' False)
   \<and> Copy scenario_env
       (SetLoggerLevel scenario_env (Common (scenario_opts False ''repo-a:v1'' ''repo-b:v1'' False)))
       (repo ''repo-a'' ''v1'') (srcRef (scenario_opts False ''repo-a:v1'' ''repo-b:v1'' False))
       (repo ''repo-b'' ''v1'') (dstRef (scenario_opts False ''repo-a:v1'' ''repo-b:v1'' False))
       (cpOpts scenario_env (scenario_opts False ''repo-a:v1'' ''repo-b:v1'' False)) = Inr desc_D
   \<and> runCopy scenario_env (scenario_opts False ''repo-a:v1'' ''repo-b:v1'' False)
       = ([SetLoggerLevel_call \<lparr>Verbose = False\<rparr>,
           NewRepository_call () ''repo-a:v1'' \<lparr>Verbose = False\<rparr>,
           NewRepository_call () ''repo-b:v1'' \<lparr>Verbose = False\<rparr>,
           Copy_call () (repo ''repo-a'' ''v1'') ''repo-a:v1'' (repo ''repo-b'' ''v1'') ''repo-b:v1''
             (cpOpts scenario_env (scenario_opts False ''repo-a:v1'' ''repo-b:v1'' False)),
           Println_call [''Copied'', ''repo-a:v1'', ''=>'', ''repo-b:v1''],
           Println_call [''Digest:'', Digest desc_D]],
          None)
   \<and> map Sprintln [[''Copied'', ''repo-a:v1'', ''=>'', ''repo-b:v1''], [''Digest:'', Digest desc_D]]
       = [''Copied repo-a:v1 => repo-b:v1'' @ [CHR 0x0A], ''Digest: '' @ Digest desc_D @ [CHR 0x0A]]"
proof -
  let ?o = "scenario_opts False ''repo-a:v1'' ''repo-b:v1'' False"
  have h1: "NewRepository scenario_env (src ?o) (srcRef ?o) (Common ?o) = Inr (repo ''repo-a'' ''v1'')"
    by (simp add: scenario_defs)
  have h2: "NewRepository scenario_env (dst ?o) (dstRef ?o) (Common ?o) = Inr (repo ''repo-b'' ''v1'')"
    by (simp add: scenario_defs)
  have h3: "Reference (RepoReference (repo ''repo-a'' ''v1'')) \<noteq> []"
    by (simp add: repo_def)
  have h4: "Reference (RepoReference (repo ''repo-b'' ''v1'')) \<noteq> []"
    by (simp add: repo_def)
  have h5: "\<not> rescursive ?o"
    by (simp add: scenario_opts_def)
  have h6: "Copy scenario_env (SetLoggerLevel scenario_env (Common ?o)) (repo ''repo-a'' ''v1'')
              (srcRef ?o) (repo ''repo-b'' ''v1'') (dstRef ?o) (cpOpts scenario_env ?o) = Inr desc_D"
    by (simp add: scenario_env_def)
  have e: "Common ?o = \<lparr>Verbose = False\<rparr>" "src ?o = ()" "dst ?o = ()"
          "srcRef ?o = ''repo-a:v1''" "dstRef ?o = ''repo-b:v1''"
    by (simp_all add: scenario_opts_def)
  from runCopy_plain_copy_with_tags [OF h1 h2 h3 h4 h5 h6] h1 h2 h3 h4 h5 h6 show ?thesis
    by (simp add: e)
qed

subsection \<open>Errors and the completion lines\<close>






subsection \<open>The command line\<close>

text \<open>C10. The command accepts every list of two or more positional arguments, and on
  every such list it runs \<^verbatim>\<open>runCopy\<close> with the first argument as the source reference and
  the second as the destination reference; what follows the second argument changes
  nothing.\<close>

theorem copyCmd_uses_first_two_args:
  assumes "2 \<le> length args"
  shows "MinimumNArgs 2 args = None
       \<and> copyCmd env opts args
           = (case runCopy env (opts\<lparr>srcRef := hd args, dstRef := hd (tl args)\<rparr>) of
                (t, r) \<Rightarrow> (t, map_option RunError r))
       \<and> copyCmd env opts args = copyCmd env opts [hd args, hd (tl args)]"
proof -
  from assms obtain a b rest where "args = a # b # rest"
    by (cases args; cases "tl args") auto
  then show ?thesis by (simp add: copyCmd_def MinimumNArgs_def)
qed

theorem copyCmd_uses_first_two_args_witness:
  "2 \<le> length [''repo-a:v1'', ''repo-b:v1'', ''extra'', ''more'']
   \<and> MinimumNArgs 2 [''repo-a:v1'', ''repo-b:v1'', ''extra'', ''more''] = None
   \<and> copyCmd scenario_env (scenario_opts False [] [] False)
         [''repo-a:v1'', ''repo-b:v1'', ''extra'', ''more'']
       = copyCmd scenario_env (scenario_opts False [] [] False) [''repo-a:v1'', ''repo-b:v1'']"
proof -
  have h: "2 \<le> length [''repo-a:v1'', ''repo-b:v1'', ''extra'', ''more'']"
    by simp
  from copyCmd_uses_first_two_args
         [OF h, of scenario_env "scenario_opts False [] [] False", unfolded list.sel] h
  show ?thesis by blast
qed

end
